theory Spec2Isabelle
  imports Main
begin

section \<open>Data model of the quick start example\<close>

text \<open>
  The example \<^verbatim>\<open>quick_start_example.py\<close> declares three route handlers on a FastAPI
  application. Each handler receives an \<^verbatim>\<open>AuthenticationContext\<close> from a dependency of the
  library \<^verbatim>\<open>velmios.core.security\<close> and builds a response dictionary from it. The library's
  classes are imported, not defined, by the example; their shapes are taken from the way the
  handlers read them and from the data model of the specification.
\<close>

text \<open>
  Modelled from the spec: the enumeration \<^verbatim>\<open>AuthenticationPersona\<close>, whose declaration is not
  part of the example. The handlers name \<^verbatim>\<open>ADMIN\<close> and \<^verbatim>\<open>CUSTOMER\<close>; the specification adds
  "implicitly a SYSTEM variant".
\<close>

datatype AuthenticationPersona = ADMIN | CUSTOMER | SYSTEM

text \<open>
  Python objects whose class the example never fixes (identifiers, e-mail addresses, realm
  identifiers, roles) are values of a type parameter \<open>'v\<close>. The sub-entities carry the
  attributes the handlers read: \<^verbatim>\<open>admin.id\<close>, \<^verbatim>\<open>admin.role\<close>, \<^verbatim>\<open>admin.email\<close>,
  \<^verbatim>\<open>customer.id\<close>, \<^verbatim>\<open>customer.role\<close>, \<^verbatim>\<open>customer.realm_id\<close> and \<^verbatim>\<open>system.id\<close>. The field
  names carry the entity as a prefix, since a record field name is global in HOL.
\<close>

record 'v Admin =
  admin_id :: 'v
  admin_role :: 'v
  admin_email :: 'v

record 'v Customer =
  customer_id :: 'v
  customer_role :: 'v
  customer_realm_id :: 'v

record 'v System =
  system_id :: 'v

text \<open>
  Modelled from the spec: the class \<^verbatim>\<open>AuthenticationContext\<close>, "holding the resolved persona
  kind, a realm identifier, and conditionally an admin, customer, or system sub-entity". A
  sub-entity that is not populated is \<open>None\<close>.
\<close>

record 'v AuthenticationContext =
  persona :: AuthenticationPersona
  realm_id :: 'v
  admin :: "'v Admin option"
  customer :: "'v Customer option"
  system :: "'v System option"

text \<open>
  Modelled from the spec: the method \<^verbatim>\<open>AuthenticationContext.persona_is\<close>, which the example
  calls and does not define; it tests the resolved persona kind of the context.
\<close>

definition persona_is :: "'v AuthenticationContext \<Rightarrow> AuthenticationPersona \<Rightarrow> bool" where
  "persona_is auth p = (persona auth = p)"

text \<open>
  Modelled from the spec: the contract of a context resolved by the library, whose persona
  "select[s] which sub-entity is populated".
\<close>

definition resolved :: "'v AuthenticationContext \<Rightarrow> bool" where
  "resolved auth =
     (case persona auth of
        ADMIN \<Rightarrow> admin auth \<noteq> None
      | CUSTOMER \<Rightarrow> customer auth \<noteq> None
      | SYSTEM \<Rightarrow> system auth \<noteq> None)"

subsection \<open>Responses and errors\<close>

text \<open>
  A value of a response dictionary is either a string built by \<^verbatim>\<open>str(...)\<close>, or an object
  of the context placed in the dictionary as it is, or a member of the persona enumeration
  placed in the dictionary as it is. A dictionary literal is the list of its items in the
  order written; \<open>map_of\<close> looks a key up.
\<close>

datatype 'v py_value = Str string | Raw 'v | Enum AuthenticationPersona

type_synonym 'v response = "(string \<times> 'v py_value) list"

text \<open>
  \<open>MissingEntity\<close> is the exception raised when a handler reads an attribute of a sub-entity
  that the context does not carry; \<open>AccessDenied\<close> is the denial raised by a dependency.
\<close>

datatype error = AccessDenied | MissingEntity

section \<open>The route handlers\<close>

text \<open>
  A handler receives the context object by reference, so it is a function from the context
  to its result and the context as the handler leaves it. The builtin \<^verbatim>\<open>str\<close> is the first
  argument: the classes it is applied to are the library's.
\<close>

type_synonym 'v handler =
  "'v AuthenticationContext \<Rightarrow> (error + 'v response) \<times> 'v AuthenticationContext"

definition get_my_resource :: "('v \<Rightarrow> string) \<Rightarrow> 'v handler" where
  "get_my_resource str auth =
     (Inr [(''realm_id'', Str (str (realm_id auth))),
           (''persona'', Enum (persona auth))],
      auth)"

definition sync_data :: "('v \<Rightarrow> string) \<Rightarrow> 'v handler" where
  "sync_data str auth =
     (case system auth of
        None \<Rightarrow> (Inl MissingEntity, auth)
      | Some sys \<Rightarrow> (Inr [(''system_id'', Str (str (system_id sys)))], auth))"

definition get_me :: "('v \<Rightarrow> string) \<Rightarrow> 'v handler" where
  "get_me str auth =
     (if persona_is auth ADMIN then
        (case admin auth of
           None \<Rightarrow> (Inl MissingEntity, auth)
         | Some adm \<Rightarrow>
             (Inr [(''id'', Str (str (admin_id adm))),
                   (''role'', Raw (admin_role adm)),
                   (''email'', Str (str (admin_email adm)))],
              auth))
      else
        (case customer auth of
           None \<Rightarrow> (Inl MissingEntity, auth)
         | Some cust \<Rightarrow>
             (Inr [(''id'', Str (str (customer_id cust))),
                   (''role'', Raw (customer_role cust)),
                   (''realm_id'', Str (str (customer_realm_id cust)))],
              auth)))"

section \<open>The routes and their dependencies\<close>

text \<open>
  The three decorators \<^verbatim>\<open>@app.get("/my-resource")\<close>, \<^verbatim>\<open>@app.post("/internal/sync")\<close> and
  \<^verbatim>\<open>@app.get("/me")\<close> register one handler each.
\<close>

datatype route = MyResource | InternalSync | Me

primrec body :: "('v \<Rightarrow> string) \<Rightarrow> route \<Rightarrow> 'v handler" where
  "body str MyResource = get_my_resource str"
| "body str InternalSync = sync_data str"
| "body str Me = get_me str"

text \<open>
  Modelled from the spec: what the library knows of the caller of a request once it has
  checked the credentials. \<open>authenticated\<close> is the context it built for a caller whose
  credentials it verified, \<open>None\<close> for any other caller; \<open>granted_scopes\<close> are the scopes
  ("a string token representing a granted permission for system-to-system calls") the
  credentials carry.
\<close>

record 'v caller =
  authenticated :: "'v AuthenticationContext option"
  granted_scopes :: "string list"

definition authenticated_persona :: "'v caller \<Rightarrow> AuthenticationPersona option" where
  "authenticated_persona c = map_option persona (authenticated c)"

definition verified_system_principal :: "'v caller \<Rightarrow> bool" where
  "verified_system_principal c = (authenticated_persona c = Some SYSTEM)"

definition holds_scope :: "'v caller \<Rightarrow> string \<Rightarrow> bool" where
  "holds_scope c scope = (scope \<in> set (granted_scopes c))"

type_synonym 'v dependency = "'v caller \<Rightarrow> error + 'v AuthenticationContext"

text \<open>
  Modelled from the spec: the dependency \<^verbatim>\<open>DependsAuthorizedPersona\<close> of the library, "a
  persona-gate that, given an allowed set of personas, must resolve to an
  AuthenticationContext if and only if the caller's authenticated persona is a member of
  that set; otherwise it must prevent the handler from executing and produce an
  access-denial outcome".
\<close>

definition DependsAuthorizedPersona :: "AuthenticationPersona list \<Rightarrow> 'v dependency" where
  "DependsAuthorizedPersona allowed c =
     (case authenticated c of
        None \<Rightarrow> Inl AccessDenied
      | Some auth \<Rightarrow> if persona auth \<in> set allowed then Inr auth else Inl AccessDenied)"

text \<open>
  Modelled from the spec: the dependency \<^verbatim>\<open>DependsSystemHasScope\<close> of the library, "a
  scope-gate that, given a required scope string, must resolve to an AuthenticationContext
  only if the caller is a verified system principal holding that scope; otherwise it must
  deny".
\<close>

definition DependsSystemHasScope :: "string \<Rightarrow> 'v dependency" where
  "DependsSystemHasScope required_scope c =
     (case authenticated c of
        None \<Rightarrow> Inl AccessDenied
      | Some auth \<Rightarrow>
          if persona auth = SYSTEM \<and> required_scope \<in> set (granted_scopes c)
          then Inr auth else Inl AccessDenied)"

text \<open>The default value of the parameter \<^verbatim>\<open>auth\<close> of each handler.\<close>

primrec dependency :: "route \<Rightarrow> 'v dependency" where
  "dependency MyResource = DependsAuthorizedPersona [ADMIN, CUSTOMER]"
| "dependency InternalSync = DependsSystemHasScope ''my_service.sync:execute''"
| "dependency Me = DependsAuthorizedPersona [ADMIN, CUSTOMER]"

text \<open>
  A request to a route first resolves the dependency of the route. When the dependency
  raises, the request ends there and the body of the handler is not run; otherwise the body
  runs on the context the dependency resolved to.
\<close>

datatype 'v outcome = Denied error | Executed "error + 'v response"

definition serve :: "('v \<Rightarrow> string) \<Rightarrow> route \<Rightarrow> 'v caller \<Rightarrow> 'v outcome" where
  "serve str r c =
     (case dependency r c of
        Inl e \<Rightarrow> Denied e
      | Inr auth \<Rightarrow> Executed (fst (body str r auth)))"

subsection \<open>The contexts the library constructs\<close>




subsection \<open>Reading a response\<close>

definition field :: "error + 'v response \<Rightarrow> string \<Rightarrow> 'v py_value option" where
  "field res key = (case res of Inl e \<Rightarrow> None | Inr d \<Rightarrow> map_of d key)"

primrec is_Str :: "'v py_value \<Rightarrow> bool" where
  "is_Str (Str s) = True"
| "is_Str (Raw v) = False"
| "is_Str (Enum p) = False"

subsection \<open>Concrete contexts\<close>

text \<open>
  Contexts whose attribute values are Python strings, on which the builtin \<^verbatim>\<open>str\<close> is the
  identity.
\<close>

definition str_of_string :: "string \<Rightarrow> string" where
  "str_of_string s = s"

definition admin_context :: "string AuthenticationContext" where
  "admin_context =
     \<lparr>persona = ADMIN, realm_id = ''realm-1'',
      admin = Some \<lparr>admin_id = ''adm-7'', admin_role = ''owner'',
                    admin_email = ''root@example.org''\<rparr>,
      customer = None, system = None\<rparr>"

definition customer_context :: "string AuthenticationContext" where
  "customer_context =
     \<lparr>persona = CUSTOMER, realm_id = ''realm-1'', admin = None,
      customer = Some \<lparr>customer_id = ''cus-4'', customer_role = ''buyer'',
                       customer_realm_id = ''realm-1''\<rparr>,
      system = None\<rparr>"

definition system_context :: "string AuthenticationContext" where
  "system_context =
     \<lparr>persona = SYSTEM, realm_id = ''realm-0'', admin = None, customer = None,
      system = Some \<lparr>system_id = ''sys-3''\<rparr>\<rparr>"

text \<open>
  Two further contexts, for the dispatch of the handler of GET /me: one with persona ADMIN
  that carries a customer and no admin (it is not a resolved context), one with persona
  SYSTEM that carries a customer beside its system.
\<close>

definition admin_context_without_admin :: "string AuthenticationContext" where
  "admin_context_without_admin =
     \<lparr>persona = ADMIN, realm_id = ''realm-1'', admin = None,
      customer = Some \<lparr>customer_id = ''cus-4'', customer_role = ''buyer'',
                       customer_realm_id = ''realm-1''\<rparr>,
      system = None\<rparr>"

definition system_context_with_customer :: "string AuthenticationContext" where
  "system_context_with_customer =
     \<lparr>persona = SYSTEM, realm_id = ''realm-0'', admin = None,
      customer = Some \<lparr>customer_id = ''cus-9'', customer_role = ''guest'',
                       customer_realm_id = ''realm-0''\<rparr>,
      system = Some \<lparr>system_id = ''sys-3''\<rparr>\<rparr>"

subsection \<open>Concrete callers\<close>

definition admin_caller :: "string caller" where
  "admin_caller = \<lparr>authenticated = Some admin_context, granted_scopes = []\<rparr>"

definition system_caller :: "string caller" where
  "system_caller =
     \<lparr>authenticated = Some system_context, granted_scopes = [''my_service.sync:execute'']\<rparr>"

definition unscoped_system_caller :: "string caller" where
  "unscoped_system_caller =
     \<lparr>authenticated = Some system_context, granted_scopes = [''my_service.sync:read'']\<rparr>"

definition anonymous_caller :: "string caller" where
  "anonymous_caller = \<lparr>authenticated = None, granted_scopes = []\<rparr>"

section \<open>Properties of the handlers\<close>

subsection \<open>Auxiliary facts\<close>


lemma get_my_resource_kinds:
  "fst (get_my_resource str auth) = Inr d \<Longrightarrow> (k, v) \<in> set d \<Longrightarrow>
     (k = ''realm_id'' \<and> is_Str v) \<or> (k = ''persona'' \<and> \<not> is_Str v)"
  unfolding get_my_resource_def by (elim conjE disjE | clarsimp)+

lemma sync_data_kinds:
  "fst (sync_data str auth) = Inr d \<Longrightarrow> (k, v) \<in> set d \<Longrightarrow> k = ''system_id'' \<and> is_Str v"
  unfolding sync_data_def by (cases "system auth") auto

lemma get_me_kinds:
  "fst (get_me str auth) = Inr d \<Longrightarrow> (k, v) \<in> set d \<Longrightarrow>
     (k = ''id'' \<and> is_Str v) \<or> (k = ''email'' \<and> is_Str v)
   \<or> (k = ''realm_id'' \<and> is_Str v) \<or> (k = ''role'' \<and> \<not> is_Str v)"
proof (cases "persona_is auth ADMIN")
  case True
  assume "fst (get_me str auth) = Inr d" "(k, v) \<in> set d"
  with True show ?thesis
    unfolding get_me_def by (cases "admin auth") auto
next
  case False
  assume "fst (get_me str auth) = Inr d" "(k, v) \<in> set d"
  with False show ?thesis
    unfolding get_me_def by (cases "customer auth") auto
qed

lemma body_value_kinds:
  assumes "fst (body str r auth) = Inr d" and "(k, v) \<in> set d"
  shows "(k \<in> {''realm_id'', ''system_id'', ''id'', ''email''} \<and> is_Str v)
       \<or> (k \<in> {''persona'', ''role''} \<and> \<not> is_Str v)"
proof (cases r)
  case MyResource
  with assms(1) have "fst (get_my_resource str auth) = Inr d" by simp
  from get_my_resource_kinds [OF this assms(2)] show ?thesis
    by (elim disjE conjE) simp_all
next
  case InternalSync
  with assms(1) have "fst (sync_data str auth) = Inr d" by simp
  from sync_data_kinds [OF this assms(2)] show ?thesis
    by (elim disjE conjE) simp_all
next
  case Me
  with assms(1) have "fst (get_me str auth) = Inr d" by simp
  from get_me_kinds [OF this assms(2)] show ?thesis
    by (elim disjE conjE) simp_all
qed

text \<open>
  C1. For every resolved context with persona ADMIN, the handler of GET /me returns the
  dictionary with the keys \<^verbatim>\<open>id\<close>, \<^verbatim>\<open>role\<close> and \<^verbatim>\<open>email\<close> taken from \<^verbatim>\<open>auth.admin\<close>; for
  every resolved context with persona CUSTOMER it returns the dictionary with the keys
  \<^verbatim>\<open>id\<close>, \<^verbatim>\<open>role\<close> and \<^verbatim>\<open>realm_id\<close> taken from \<^verbatim>\<open>auth.customer\<close>.
\<close>

theorem get_me_by_persona:
  "resolved auth \<Longrightarrow>
     (persona auth = ADMIN \<longrightarrow>
        (\<exists>adm. admin auth = Some adm
           \<and> fst (get_me str auth) =
               Inr [(''id'', Str (str (admin_id adm))),
                    (''role'', Raw (admin_role adm)),
                    (''email'', Str (str (admin_email adm)))]))
   \<and> (persona auth = CUSTOMER \<longrightarrow>
        (\<exists>cust. customer auth = Some cust
           \<and> fst (get_me str auth) =
               Inr [(''id'', Str (str (customer_id cust))),
                    (''role'', Raw (customer_role cust)),
                    (''realm_id'', Str (str (customer_realm_id cust)))]))"
  by (auto simp: resolved_def get_me_def persona_is_def)

theorem get_me_by_persona_witness:
  "resolved admin_context \<and> persona admin_context = ADMIN
   \<and> fst (get_me str_of_string admin_context) =
       Inr [(''id'', Str ''adm-7''), (''role'', Raw ''owner''),
            (''email'', Str ''root@example.org'')]
   \<and> resolved customer_context \<and> persona customer_context = CUSTOMER
   \<and> fst (get_me str_of_string customer_context) =
       Inr [(''id'', Str ''cus-4''), (''role'', Raw ''buyer''),
            (''realm_id'', Str ''realm-1'')]"
proof -
  have a: "resolved admin_context" and pa: "persona admin_context = ADMIN"
    by (simp_all add: resolved_def admin_context_def)
  have c: "resolved customer_context" and pc: "persona customer_context = CUSTOMER"
    by (simp_all add: resolved_def customer_context_def)
  from get_me_by_persona [OF a, of str_of_string] pa
  have ra: "fst (get_me str_of_string admin_context) =
       Inr [(''id'', Str ''adm-7''), (''role'', Raw ''owner''),
            (''email'', Str ''root@example.org'')]"
    by (simp add: admin_context_def str_of_string_def)
  from get_me_by_persona [OF c, of str_of_string] pc
  have rc: "fst (get_me str_of_string customer_context) =
       Inr [(''id'', Str ''cus-4''), (''role'', Raw ''buyer''),
            (''realm_id'', Str ''realm-1'')]"
    by (simp add: customer_context_def str_of_string_def)
  from a pa ra c pc rc show ?thesis by simp
qed

text \<open>
  C2. For every context, the handler of GET /my-resource returns a dictionary whose keys are
  exactly \<^verbatim>\<open>realm_id\<close> and \<^verbatim>\<open>persona\<close>; the value at \<^verbatim>\<open>realm_id\<close> is the string form of
  \<^verbatim>\<open>auth.realm_id\<close> and the value at \<^verbatim>\<open>persona\<close> is \<^verbatim>\<open>auth.persona\<close>.
\<close>

theorem get_my_resource_echoes:
  "\<exists>d. fst (get_my_resource str auth) = Inr d
     \<and> set (map fst d) = {''realm_id'', ''persona''}
     \<and> distinct (map fst d)
     \<and> map_of d ''realm_id'' = Some (Str (str (realm_id auth)))
     \<and> map_of d ''persona'' = Some (Enum (persona auth))"
  by (simp add: get_my_resource_def)

text \<open>
  C3. For every context that carries a system sub-entity, the handler of
  POST /internal/sync returns a dictionary whose only key is \<^verbatim>\<open>system_id\<close>, and the value
  there is the string form of \<^verbatim>\<open>auth.system.id\<close>.
\<close>

theorem sync_data_echoes:
  "system auth = Some sys \<Longrightarrow>
     \<exists>d. fst (sync_data str auth) = Inr d
       \<and> map fst d = [''system_id'']
       \<and> map_of d ''system_id'' = Some (Str (str (system_id sys)))"
  by (simp add: sync_data_def)

theorem sync_data_echoes_witness:
  "system system_context = Some \<lparr>system_id = ''sys-3''\<rparr>
   \<and> fst (sync_data str_of_string system_context) = Inr [(''system_id'', Str ''sys-3'')]"
proof -
  have s: "system system_context = Some \<lparr>system_id = ''sys-3''\<rparr>"
    by (simp add: system_context_def)
  from sync_data_echoes [OF s, of str_of_string]
  obtain d where d: "fst (sync_data str_of_string system_context) = Inr d"
    and k: "map fst d = [''system_id'']"
    and v: "map_of d ''system_id'' = Some (Str (str_of_string ''sys-3''))"
    by auto
  from k obtain x where dx: "d = [(''system_id'', x)]"
    by (cases d) auto
  with v have "x = Str ''sys-3''" by (simp add: str_of_string_def)
  with d dx s show ?thesis by simp
qed

text \<open>
  C4. The dependency declared on GET /my-resource and on GET /me,
  \<^verbatim>\<open>DependsAuthorizedPersona([ADMIN, CUSTOMER])\<close>, resolves to a context if and only if the
  authenticated persona of the caller is ADMIN or CUSTOMER. When it is, the context is the
  caller's and the body of the handler runs on it; when it is not, the request is denied
  and the body of the handler does not run.
\<close>

theorem persona_gate_iff_member:
  "r = MyResource \<or> r = Me \<Longrightarrow>
     ((\<exists>auth. dependency r c = Inr auth)
        \<longleftrightarrow> authenticated_persona c \<in> {Some ADMIN, Some CUSTOMER})
   \<and> (authenticated_persona c \<in> {Some ADMIN, Some CUSTOMER} \<longrightarrow>
        (\<exists>auth. authenticated c = Some auth \<and> dependency r c = Inr auth
           \<and> serve str r c = Executed (fst (body str r auth))))
   \<and> (authenticated_persona c \<notin> {Some ADMIN, Some CUSTOMER} \<longrightarrow>
        dependency r c = Inl AccessDenied \<and> serve str r c = Denied AccessDenied)"
  by (cases "authenticated c")
     (auto simp: serve_def DependsAuthorizedPersona_def authenticated_persona_def
           split: if_splits)

theorem persona_gate_iff_member_witness:
  "authenticated_persona admin_caller \<in> {Some ADMIN, Some CUSTOMER}
   \<and> dependency Me admin_caller = Inr admin_context
   \<and> serve str_of_string Me admin_caller = Executed (fst (body str_of_string Me admin_context))
   \<and> authenticated_persona system_caller \<notin> {Some ADMIN, Some CUSTOMER}
   \<and> dependency MyResource system_caller = Inl AccessDenied
   \<and> serve str_of_string MyResource system_caller = Denied AccessDenied
   \<and> authenticated_persona anonymous_caller \<notin> {Some ADMIN, Some CUSTOMER}
   \<and> serve str_of_string Me anonymous_caller = Denied AccessDenied"
proof -
  have a: "authenticated_persona admin_caller \<in> {Some ADMIN, Some CUSTOMER}"
    and aa: "authenticated admin_caller = Some admin_context"
    by (simp_all add: authenticated_persona_def admin_caller_def admin_context_def)
  have s: "authenticated_persona system_caller \<notin> {Some ADMIN, Some CUSTOMER}"
    by (simp add: authenticated_persona_def system_caller_def system_context_def)
  have n: "authenticated_persona anonymous_caller \<notin> {Some ADMIN, Some CUSTOMER}"
    by (simp add: authenticated_persona_def anonymous_caller_def)
  have me: "Me = MyResource \<or> Me = Me" and my: "MyResource = MyResource \<or> MyResource = Me"
    by simp_all
  from persona_gate_iff_member [OF me, of admin_caller str_of_string] a aa
  have 1: "dependency Me admin_caller = Inr admin_context
     \<and> serve str_of_string Me admin_caller = Executed (fst (body str_of_string Me admin_context))"
    by auto
  from persona_gate_iff_member [OF my, of system_caller str_of_string] s
  have 2: "dependency MyResource system_caller = Inl AccessDenied
     \<and> serve str_of_string MyResource system_caller = Denied AccessDenied"
    by blast
  from persona_gate_iff_member [OF me, of anonymous_caller str_of_string] n
  have 3: "serve str_of_string Me anonymous_caller = Denied AccessDenied"
    by blast
  from a s n 1 2 3 show ?thesis by blast
qed

text \<open>
  C5. The dependency declared on POST /internal/sync,
  \<^verbatim>\<open>DependsSystemHasScope(required_scope="my_service.sync:execute")\<close>, resolves to a context
  only if the caller is a verified system principal that holds this scope; for every other
  caller the request is denied and the body of the handler does not run.
\<close>

theorem scope_gate_only_system_with_scope:
  "(\<forall>auth. dependency InternalSync c = Inr auth \<longrightarrow>
        verified_system_principal c \<and> holds_scope c ''my_service.sync:execute''
      \<and> authenticated c = Some auth)
   \<and> (\<not> (verified_system_principal c \<and> holds_scope c ''my_service.sync:execute'') \<longrightarrow>
        dependency InternalSync c = Inl AccessDenied
      \<and> serve str InternalSync c = Denied AccessDenied)"
  by (cases "authenticated c")
     (simp_all add: serve_def DependsSystemHasScope_def verified_system_principal_def
        authenticated_persona_def holds_scope_def)


theorem scope_gate_only_system_with_scope_witness:
  "dependency InternalSync system_caller = Inr system_context
   \<and> verified_system_principal system_caller
   \<and> holds_scope system_caller ''my_service.sync:execute''
   \<and> \<not> holds_scope unscoped_system_caller ''my_service.sync:execute''
   \<and> serve str_of_string InternalSync unscoped_system_caller = Denied AccessDenied
   \<and> \<not> verified_system_principal admin_caller
   \<and> serve str_of_string InternalSync admin_caller = Denied AccessDenied"
proof -
  have r: "dependency InternalSync system_caller = Inr system_context"
    by (simp add: DependsSystemHasScope_def system_caller_def system_context_def)
  have u: "\<not> holds_scope unscoped_system_caller ''my_service.sync:execute''"
    by (simp add: holds_scope_def unscoped_system_caller_def)
  have a: "\<not> verified_system_principal admin_caller"
    by (simp add: verified_system_principal_def authenticated_persona_def admin_caller_def
          admin_context_def)
  from scope_gate_only_system_with_scope [of system_caller str_of_string] r
  have 1: "verified_system_principal system_caller
     \<and> holds_scope system_caller ''my_service.sync:execute''"
    by blast
  from scope_gate_only_system_with_scope [of unscoped_system_caller str_of_string] u
  have 2: "serve str_of_string InternalSync unscoped_system_caller = Denied AccessDenied"
    by blast
  from scope_gate_only_system_with_scope [of admin_caller str_of_string] a
  have 3: "serve str_of_string InternalSync admin_caller = Denied AccessDenied"
    by blast
  from r u a 1 2 3 show ?thesis by blast
qed

text \<open>
  C6. No handler changes the context it is given: after each of the three handlers has
  returned, with a dictionary or with an exception, the context (and so each of its
  sub-entities) is the one the handler received.
\<close>

theorem handlers_leave_context_unchanged:
  "snd (get_my_resource str auth) = auth
   \<and> snd (sync_data str auth) = auth
   \<and> snd (get_me str auth) = auth"
  by (simp add: get_my_resource_def sync_data_def get_me_def split: option.split)

text \<open>
  C8 as stated fails: a resolved context with persona SYSTEM that carries only its system
  sub-entity is neither ADMIN nor CUSTOMER, takes the else branch of the handler of
  GET /me, and there the read of \<^verbatim>\<open>auth.customer\<close> raises; no customer-shaped dictionary is
  returned.
\<close>

theorem get_me_non_admin_counterexample:
  "resolved system_context \<and> persona system_context \<noteq> ADMIN
   \<and> persona system_context \<noteq> CUSTOMER
   \<and> fst (get_me str_of_string system_context) = Inl MissingEntity"
  by (simp add: resolved_def system_context_def get_me_def persona_is_def)

text \<open>
  C8, amended. The handler of GET /me dispatches only on \<^verbatim>\<open>persona_is(ADMIN)\<close>. When the
  persona is ADMIN it reads \<^verbatim>\<open>auth.admin\<close> and nothing else decides the result: the
  admin-shaped dictionary when that sub-entity is populated, the missing-entity error when
  it is not, whatever \<^verbatim>\<open>auth.customer\<close> holds. For every context whose persona is not ADMIN
  (CUSTOMER or any other) it takes the else branch and reads \<^verbatim>\<open>auth.customer\<close>: when that
  sub-entity is populated it returns the customer-shaped dictionary built from it; when it
  is not, the handler fails with the missing-entity error.
\<close>

theorem get_me_dispatches_on_admin_only:
  "(persona_is auth ADMIN \<longleftrightarrow> persona auth = ADMIN)
   \<and> (persona auth = ADMIN \<longrightarrow>
        (admin auth = None \<longrightarrow> fst (get_me str auth) = Inl MissingEntity)
      \<and> (\<forall>adm. admin auth = Some adm \<longrightarrow>
             fst (get_me str auth) =
               Inr [(''id'', Str (str (admin_id adm))),
                    (''role'', Raw (admin_role adm)),
                    (''email'', Str (str (admin_email adm)))]))
   \<and> (persona auth \<noteq> ADMIN \<longrightarrow>
        (customer auth = None \<longrightarrow> fst (get_me str auth) = Inl MissingEntity)
      \<and> (\<forall>cust. customer auth = Some cust \<longrightarrow>
             fst (get_me str auth) =
               Inr [(''id'', Str (str (customer_id cust))),
                    (''role'', Raw (customer_role cust)),
                    (''realm_id'', Str (str (customer_realm_id cust)))]))"
  by (simp add: get_me_def persona_is_def)

theorem get_me_dispatches_on_admin_only_witness:
  "persona admin_context = ADMIN
   \<and> fst (get_me str_of_string admin_context) =
       Inr [(''id'', Str ''adm-7''), (''role'', Raw ''owner''),
            (''email'', Str ''root@example.org'')]
   \<and> persona admin_context_without_admin = ADMIN
   \<and> admin admin_context_without_admin = None
   \<and> customer admin_context_without_admin \<noteq> None
   \<and> fst (get_me str_of_string admin_context_without_admin) = Inl MissingEntity
   \<and> persona system_context \<noteq> ADMIN \<and> customer system_context = None
   \<and> fst (get_me str_of_string system_context) = Inl MissingEntity
   \<and> persona customer_context \<noteq> ADMIN
   \<and> fst (get_me str_of_string customer_context) =
       Inr [(''id'', Str ''cus-4''), (''role'', Raw ''buyer''),
            (''realm_id'', Str ''realm-1'')]
   \<and> persona system_context_with_customer \<noteq> ADMIN
   \<and> persona system_context_with_customer \<noteq> CUSTOMER
   \<and> fst (get_me str_of_string system_context_with_customer) =
       Inr [(''id'', Str ''cus-9''), (''role'', Raw ''guest''),
            (''realm_id'', Str ''realm-0'')]"
proof -
  note th = get_me_dispatches_on_admin_only [of _ str_of_string]
  have pa: "persona admin_context = ADMIN"
    and aa: "admin admin_context =
       Some \<lparr>admin_id = ''adm-7'', admin_role = ''owner'',
             admin_email = ''root@example.org''\<rparr>"
    by (simp_all add: admin_context_def)
  have pw: "persona admin_context_without_admin = ADMIN"
    and aw: "admin admin_context_without_admin = None"
    and cw: "customer admin_context_without_admin \<noteq> None"
    by (simp_all add: admin_context_without_admin_def)
  have ps: "persona system_context \<noteq> ADMIN" and cs: "customer system_context = None"
    by (simp_all add: system_context_def)
  have pc: "persona customer_context \<noteq> ADMIN"
    and cc: "customer customer_context =
       Some \<lparr>customer_id = ''cus-4'', customer_role = ''buyer'',
             customer_realm_id = ''realm-1''\<rparr>"
    by (simp_all add: customer_context_def)
  have px: "persona system_context_with_customer \<noteq> ADMIN"
    and px': "persona system_context_with_customer \<noteq> CUSTOMER"
    and cx: "customer system_context_with_customer =
       Some \<lparr>customer_id = ''cus-9'', customer_role = ''guest'',
             customer_realm_id = ''realm-0''\<rparr>"
    by (simp_all add: system_context_with_customer_def)
  from th [of admin_context] pa aa
  have ra: "fst (get_me str_of_string admin_context) =
       Inr [(''id'', Str ''adm-7''), (''role'', Raw ''owner''),
            (''email'', Str ''root@example.org'')]"
    by (simp add: str_of_string_def)
  from th [of admin_context_without_admin] pw aw
  have rw: "fst (get_me str_of_string admin_context_without_admin) = Inl MissingEntity"
    by simp
  from th [of system_context] ps cs
  have rs: "fst (get_me str_of_string system_context) = Inl MissingEntity"
    by simp
  from th [of customer_context] pc cc
  have rc: "fst (get_me str_of_string customer_context) =
       Inr [(''id'', Str ''cus-4''), (''role'', Raw ''buyer''),
            (''realm_id'', Str ''realm-1'')]"
    by (simp add: str_of_string_def)
  from th [of system_context_with_customer] px cx
  have rx: "fst (get_me str_of_string system_context_with_customer) =
       Inr [(''id'', Str ''cus-9''), (''role'', Raw ''guest''),
            (''realm_id'', Str ''realm-0'')]"
    by (simp add: str_of_string_def)
  from pa ra pw aw cw rw ps cs rs pc rc px px' rx show ?thesis by simp
qed



text \<open>
  C10. Every identifier-like value of a response is the result of \<^verbatim>\<open>str\<close>: \<^verbatim>\<open>realm_id\<close> in
  the handler of GET /my-resource, \<^verbatim>\<open>system.id\<close> in the handler of POST /internal/sync,
  \<^verbatim>\<open>admin.id\<close>, \<^verbatim>\<open>admin.email\<close>, \<^verbatim>\<open>customer.id\<close> and \<^verbatim>\<open>customer.realm_id\<close> in the handler
  of GET /me. The persona and the role are placed in the response as they are. So in every
  dictionary a handler returns, the values at \<^verbatim>\<open>realm_id\<close>, \<^verbatim>\<open>system_id\<close>, \<^verbatim>\<open>id\<close> and
  \<^verbatim>\<open>email\<close> are strings built by \<^verbatim>\<open>str\<close>, the values at \<^verbatim>\<open>persona\<close> and \<^verbatim>\<open>role\<close> are not,
  and there is no other key.
\<close>

theorem identifiers_converted_by_str:
  "field (fst (get_my_resource str auth)) ''realm_id'' = Some (Str (str (realm_id auth)))
   \<and> field (fst (get_my_resource str auth)) ''persona'' = Some (Enum (persona auth))
   \<and> (\<forall>sys. system auth = Some sys \<longrightarrow>
          field (fst (sync_data str auth)) ''system_id'' = Some (Str (str (system_id sys))))
   \<and> (\<forall>adm. persona auth = ADMIN \<and> admin auth = Some adm \<longrightarrow>
          field (fst (get_me str auth)) ''id'' = Some (Str (str (admin_id adm)))
        \<and> field (fst (get_me str auth)) ''email'' = Some (Str (str (admin_email adm)))
        \<and> field (fst (get_me str auth)) ''role'' = Some (Raw (admin_role adm)))
   \<and> (\<forall>cust. persona auth \<noteq> ADMIN \<and> customer auth = Some cust \<longrightarrow>
          field (fst (get_me str auth)) ''id'' = Some (Str (str (customer_id cust)))
        \<and> field (fst (get_me str auth)) ''realm_id'' =
            Some (Str (str (customer_realm_id cust)))
        \<and> field (fst (get_me str auth)) ''role'' = Some (Raw (customer_role cust)))
   \<and> (\<forall>r d k v. fst (body str r auth) = Inr d \<and> (k, v) \<in> set d \<longrightarrow>
          (k \<in> {''realm_id'', ''system_id'', ''id'', ''email''} \<and> is_Str v)
        \<or> (k \<in> {''persona'', ''role''} \<and> \<not> is_Str v))"
proof -
  have a: "field (fst (get_my_resource str auth)) ''realm_id'' = Some (Str (str (realm_id auth)))"
    by (simp add: field_def get_my_resource_def)
  have b: "field (fst (get_my_resource str auth)) ''persona'' = Some (Enum (persona auth))"
    by (simp add: field_def get_my_resource_def)
  have c: "\<forall>sys. system auth = Some sys \<longrightarrow>
          field (fst (sync_data str auth)) ''system_id'' = Some (Str (str (system_id sys)))"
    by (simp add: field_def sync_data_def)
  have d: "\<forall>adm. persona auth = ADMIN \<and> admin auth = Some adm \<longrightarrow>
          field (fst (get_me str auth)) ''id'' = Some (Str (str (admin_id adm)))
        \<and> field (fst (get_me str auth)) ''email'' = Some (Str (str (admin_email adm)))
        \<and> field (fst (get_me str auth)) ''role'' = Some (Raw (admin_role adm))"
    by (simp add: field_def get_me_def persona_is_def)
  have e: "\<forall>cust. persona auth \<noteq> ADMIN \<and> customer auth = Some cust \<longrightarrow>
          field (fst (get_me str auth)) ''id'' = Some (Str (str (customer_id cust)))
        \<and> field (fst (get_me str auth)) ''realm_id'' =
            Some (Str (str (customer_realm_id cust)))
        \<and> field (fst (get_me str auth)) ''role'' = Some (Raw (customer_role cust))"
    by (simp add: field_def get_me_def persona_is_def)
  have f: "\<forall>r d k v. fst (body str r auth) = Inr d \<and> (k, v) \<in> set d \<longrightarrow>
          (k \<in> {''realm_id'', ''system_id'', ''id'', ''email''} \<and> is_Str v)
        \<or> (k \<in> {''persona'', ''role''} \<and> \<not> is_Str v)"
    by (intro allI impI, elim conjE, rule body_value_kinds)
  show ?thesis
    by (rule conjI [OF a conjI [OF b conjI [OF c conjI [OF d conjI [OF e f]]]]])
qed

theorem identifiers_converted_by_str_witness:
  "field (fst (get_me str_of_string admin_context)) ''id'' = Some (Str ''adm-7'')
   \<and> field (fst (get_me str_of_string admin_context)) ''email'' = Some (Str ''root@example.org'')
   \<and> field (fst (get_me str_of_string admin_context)) ''role'' = Some (Raw ''owner'')
   \<and> field (fst (get_me str_of_string customer_context)) ''id'' = Some (Str ''cus-4'')
   \<and> field (fst (get_me str_of_string customer_context)) ''realm_id'' = Some (Str ''realm-1'')
   \<and> field (fst (get_me str_of_string customer_context)) ''role'' = Some (Raw ''buyer'')
   \<and> field (fst (sync_data str_of_string system_context)) ''system_id'' = Some (Str ''sys-3'')
   \<and> fst (body str_of_string MyResource customer_context) =
       Inr [(''realm_id'', Str ''realm-1''), (''persona'', Enum CUSTOMER)]
   \<and> is_Str (Str ''realm-1'' :: string py_value)
   \<and> \<not> is_Str (Enum CUSTOMER :: string py_value)"
proof -
  have pa: "persona admin_context = ADMIN \<and> admin admin_context =
      Some \<lparr>admin_id = ''adm-7'', admin_role = ''owner'', admin_email = ''root@example.org''\<rparr>"
    by (simp add: admin_context_def)
  have pc: "persona customer_context \<noteq> ADMIN \<and> customer customer_context =
      Some \<lparr>customer_id = ''cus-4'', customer_role = ''buyer'',
            customer_realm_id = ''realm-1''\<rparr>"
    by (simp add: customer_context_def)
  have ps: "system system_context = Some \<lparr>system_id = ''sys-3''\<rparr>"
    by (simp add: system_context_def)
  have m: "fst (body str_of_string MyResource customer_context) =
       Inr [(''realm_id'', Str ''realm-1''), (''persona'', Enum CUSTOMER)]"
    by (simp add: get_my_resource_def customer_context_def str_of_string_def)
  note t = identifiers_converted_by_str [of str_of_string]
  from t [of admin_context] pa
  have 1: "field (fst (get_me str_of_string admin_context)) ''id'' = Some (Str ''adm-7'')
   \<and> field (fst (get_me str_of_string admin_context)) ''email'' = Some (Str ''root@example.org'')
   \<and> field (fst (get_me str_of_string admin_context)) ''role'' = Some (Raw ''owner'')"
    by (simp add: str_of_string_def)
  from t [of customer_context] pc
  have 2: "field (fst (get_me str_of_string customer_context)) ''id'' = Some (Str ''cus-4'')
   \<and> field (fst (get_me str_of_string customer_context)) ''realm_id'' = Some (Str ''realm-1'')
   \<and> field (fst (get_me str_of_string customer_context)) ''role'' = Some (Raw ''buyer'')"
    by (simp add: str_of_string_def)
  from t [of system_context] ps
  have 3: "field (fst (sync_data str_of_string system_context)) ''system_id'' = Some (Str ''sys-3'')"
    by (simp add: str_of_string_def)
  from t [of customer_context] m
  have 4: "is_Str (Str ''realm-1'' :: string py_value)
     \<and> \<not> is_Str (Enum CUSTOMER :: string py_value)"
    by simp
  from 1 2 3 4 m show ?thesis by simp
qed

end
